theory Spec2Isabelle
  imports Complex_Main
begin

section \<open>The token manager of token_manager.py\<close>

text \<open>
  A shallow embedding of the class \<open>TokenManager\<close>. Everything the class touches outside
  its own fields is a component of an explicit \<open>world\<close>: the SQLite files (by path), the
  process environment, the wall clock and the OAuth endpoint. Each method takes the world
  and returns the new one; every \<open>raise\<close> is the \<open>Inl\<close> branch of a sum.
\<close>

subsection \<open>Data\<close>

text \<open>
  The exceptions that can leave the methods: the two \<open>raise Exception(...)\<close> of the class,
  the error of SQLite when the table \<open>tokens\<close> is missing, and a failure of the transport
  under \<open>requests.post\<close>.
\<close>

datatype py_exception =
    Exception string
  | OperationalError string
  | RequestException string

text \<open>
  A row of the table \<open>tokens\<close>, columns in the order of the \<open>CREATE TABLE\<close>:
  \<open>id\<close>, \<open>refresh_token\<close>, \<open>access_token\<close>, \<open>expires_at\<close>. The columns hold
  what \<open>save_tokens\<close> puts there: two strings and an integer.
\<close>

datatype token_row = Row int string string int

text \<open>
  The state of one database file: \<open>None\<close> when it has no table \<open>tokens\<close> (a file that
  does not exist yet is created empty by \<open>sqlite3.connect\<close>), otherwise the rows of the
  table in rowid order.
\<close>

type_synonym database = "token_row list option"

text \<open>The dictionary that \<open>get_tokens\<close> returns.\<close>

record tokens =
  access_token :: string
  refresh_token :: string
  expires_at :: int

text \<open>
  The body of a 200 answer of the token endpoint, \<open>response.json()\<close>, with the three
  keys the class reads: \<open>access_token\<close>, \<open>refresh_token\<close> and \<open>expires_in\<close> (whole
  seconds).
\<close>

record new_tokens =
  json_access_token :: string
  json_refresh_token :: string
  json_expires_in :: int

record http_request =
  url :: string
  headers :: "(string \<times> string) list"
  data :: "(string \<times> string) list"

record http_response =
  status_code :: int
  response_text :: string
  json :: new_tokens

datatype http_outcome =
    Response http_response
  | ConnectionFailed string

text \<open>
  The world. \<open>clock\<close> gives the successive readings of \<open>time.time()\<close> (seconds, with a
  fraction) and \<open>clock_reads\<close> counts the readings taken so far; \<open>posted\<close> is the log of
  the requests handed to \<open>requests.post\<close>; \<open>commits\<close> counts the calls of
  \<open>conn.commit()\<close>.
\<close>

record world =
  files :: "string \<Rightarrow> database"
  commits :: nat
  environ :: "string \<Rightarrow> string option"
  clock :: "nat \<Rightarrow> rat"
  clock_reads :: nat
  endpoint :: "http_request \<Rightarrow> http_outcome"
  posted :: "http_request list"

text \<open>The fields of a \<open>TokenManager\<close> object.\<close>

record token_manager =
  db_path :: string
  client_id :: "string option"
  client_secret :: "string option"

subsection \<open>Library functions the class calls\<close>

text \<open>
  \<open>time.time()\<close>: the next reading of the clock. A reading is a rational number of
  seconds (every finite float is one), and \<open>time.time() + 300\<close> is taken as the exact
  sum.
\<close>

definition time_time :: "world \<Rightarrow> rat \<times> world" where
  "time_time w = (clock w (clock_reads w), w\<lparr>clock_reads := Suc (clock_reads w)\<rparr>)"

text \<open>\<open>int(x)\<close> on a float: truncation towards zero.\<close>

definition py_int :: "rat \<Rightarrow> int" where
  "py_int x = (if 0 \<le> x then \<lfloor>x\<rfloor> else \<lceil>x\<rceil>)"

text \<open>An f-string field \<open>{v}\<close> for a value that is a string or \<open>None\<close>.\<close>

definition py_format :: "string option \<Rightarrow> string" where
  "py_format v = (case v of None \<Rightarrow> ''None'' | Some s \<Rightarrow> s)"

text \<open>Truthiness of a string or \<open>None\<close>: \<open>None\<close> and the empty string are false.\<close>

definition py_truthy :: "string option \<Rightarrow> bool" where
  "py_truthy v = (case v of None \<Rightarrow> False | Some s \<Rightarrow> s \<noteq> [])"

text \<open>\<open>base64.b64encode\<close> on the bytes of a string.\<close>

definition b64_alphabet :: string where
  "b64_alphabet = ''ABCDEFGHIJKLMNOPQRSTUVWXYZabcdefghijklmnopqrstuvwxyz0123456789+/''"

definition b64_digit :: "nat \<Rightarrow> char" where
  "b64_digit n = b64_alphabet ! n"

fun b64_groups :: "nat list \<Rightarrow> string" where
  "b64_groups (a # b # c # rest) =
     [b64_digit (a div 4), b64_digit ((a mod 4) * 16 + b div 16),
      b64_digit ((b mod 16) * 4 + c div 64), b64_digit (c mod 64)] @ b64_groups rest"
| "b64_groups [a, b] =
     [b64_digit (a div 4), b64_digit ((a mod 4) * 16 + b div 16),
      b64_digit ((b mod 16) * 4), CHR ''='']"
| "b64_groups [a] =
     [b64_digit (a div 4), b64_digit ((a mod 4) * 16), CHR ''='', CHR ''='']"
| "b64_groups [] = []"

definition b64encode :: "string \<Rightarrow> string" where
  "b64encode s = b64_groups (map of_char s)"

subsection \<open>SQLite, as far as the class uses it\<close>

text \<open>
  A connection works on its own copy of the file's state; \<open>conn_commit\<close> writes the copy
  back. A method that raises before its \<open>conn.commit()\<close> leaves the file as it was.
\<close>

definition sqlite3_connect :: "string \<Rightarrow> world \<Rightarrow> database" where
  "sqlite3_connect path w = files w path"

definition conn_commit :: "string \<Rightarrow> database \<Rightarrow> world \<Rightarrow> world" where
  "conn_commit path conn w = w\<lparr>files := (files w)(path := conn), commits := Suc (commits w)\<rparr>"

text \<open>\<open>CREATE TABLE IF NOT EXISTS tokens (...)\<close>\<close>

definition create_table_if_not_exists :: "database \<Rightarrow> database" where
  "create_table_if_not_exists conn = (case conn of None \<Rightarrow> Some [] | Some rows \<Rightarrow> Some rows)"

text \<open>\<open>DELETE FROM tokens\<close>\<close>

definition delete_from_tokens :: "database \<Rightarrow> py_exception + database" where
  "delete_from_tokens conn =
     (case conn of
        None \<Rightarrow> Inl (OperationalError ''no such table: tokens'')
      | Some rows \<Rightarrow> Inr (Some []))"

text \<open>
  The rowid SQLite gives a row inserted without an \<open>id\<close>: one more than the largest in
  the table, 1 in an empty table.
\<close>

fun row_id :: "token_row \<Rightarrow> int" where
  "row_id (Row i r a e) = i"

definition next_rowid :: "token_row list \<Rightarrow> int" where
  "next_rowid rows =
     (case rows of [] \<Rightarrow> 1 | r # rest \<Rightarrow> fold max (map row_id rest) (row_id r) + 1)"

text \<open>\<open>INSERT INTO tokens (refresh_token, access_token, expires_at) VALUES (?, ?, ?)\<close>\<close>

definition insert_into_tokens ::
    "string \<Rightarrow> string \<Rightarrow> int \<Rightarrow> database \<Rightarrow> py_exception + database" where
  "insert_into_tokens r a e conn =
     (case conn of
        None \<Rightarrow> Inl (OperationalError ''no such table: tokens'')
      | Some rows \<Rightarrow> Inr (Some (rows @ [Row (next_rowid rows) r a e])))"

text \<open>
  \<open>SELECT access_token, refresh_token, expires_at FROM tokens LIMIT 1\<close> followed by
  \<open>fetchone()\<close>: the first row, or \<open>None\<close>.
\<close>

definition select_fetchone :: "database \<Rightarrow> py_exception + (string \<times> string \<times> int) option" where
  "select_fetchone conn =
     (case conn of
        None \<Rightarrow> Inl (OperationalError ''no such table: tokens'')
      | Some [] \<Rightarrow> Inr None
      | Some (Row i r a e # rest) \<Rightarrow> Inr (Some (a, r, e)))"

subsection \<open>The methods\<close>

definition init_db :: "token_manager \<Rightarrow> world \<Rightarrow> world" where
  "init_db self w =
     (let conn = sqlite3_connect (db_path self) w;
          conn1 = create_table_if_not_exists conn
      in conn_commit (db_path self) conn1 w)"


definition save_tokens ::
    "token_manager \<Rightarrow> string \<Rightarrow> string \<Rightarrow> int \<Rightarrow> world \<Rightarrow> (py_exception + unit) \<times> world" where
  "save_tokens self a_token r_token expires_in w =
     (case time_time w of (now, w1) \<Rightarrow>
        (let e_at = py_int now + expires_in;
             conn = sqlite3_connect (db_path self) w1
         in case delete_from_tokens conn of
              Inl exn \<Rightarrow> (Inl exn, w1)
            | Inr conn1 \<Rightarrow>
                (case insert_into_tokens r_token a_token e_at conn1 of
                   Inl exn \<Rightarrow> (Inl exn, w1)
                 | Inr conn2 \<Rightarrow> (Inr (), conn_commit (db_path self) conn2 w1))))"

definition get_tokens :: "token_manager \<Rightarrow> world \<Rightarrow> py_exception + tokens option" where
  "get_tokens self w =
     (case select_fetchone (sqlite3_connect (db_path self) w) of
        Inl exn \<Rightarrow> Inl exn
      | Inr None \<Rightarrow> Inr None
      | Inr (Some (a, r, e)) \<Rightarrow>
          Inr (Some \<lparr>access_token = a, refresh_token = r, expires_at = e\<rparr>))"

text \<open>The request that \<open>refresh_access_token\<close> builds.\<close>

definition refresh_request :: "token_manager \<Rightarrow> string \<Rightarrow> http_request" where
  "refresh_request self r_token =
     (let credentials = py_format (client_id self) @ '':'' @ py_format (client_secret self);
          encoded_credentials = b64encode credentials
      in \<lparr>url = ''https://api.bluebeam.com/oauth2/token'',
          headers = [(''Content-Type'', ''application/x-www-form-urlencoded''),
                     (''Authorization'', ''Basic '' @ encoded_credentials)],
          data = [(''grant_type'', ''refresh_token''), (''refresh_token'', r_token)]\<rparr>)"

definition refresh_access_token ::
    "token_manager \<Rightarrow> string \<Rightarrow> world \<Rightarrow> (py_exception + new_tokens) \<times> world" where
  "refresh_access_token self r_token w =
     (let request = refresh_request self r_token;
          w1 = w\<lparr>posted := posted w @ [request]\<rparr>
      in case endpoint w request of
           ConnectionFailed msg \<Rightarrow> (Inl (RequestException msg), w1)
         | Response response \<Rightarrow>
             if status_code response = 200 then (Inr (json response), w1)
             else (Inl (Exception (''Failed to refresh token: '' @ response_text response)), w1))"

text \<open>
  Both places where \<open>get_valid_access_token\<close> refreshes and saves have the same three
  statements; they are written once here.
\<close>

definition refresh_and_save ::
    "token_manager \<Rightarrow> string \<Rightarrow> world \<Rightarrow> (py_exception + string) \<times> world" where
  "refresh_and_save self r_token w =
     (case refresh_access_token self r_token w of
        (Inl exn, w1) \<Rightarrow> (Inl exn, w1)
      | (Inr nt, w1) \<Rightarrow>
          (case save_tokens self (json_access_token nt) (json_refresh_token nt)
                  (json_expires_in nt) w1 of
             (Inl exn, w2) \<Rightarrow> (Inl exn, w2)
           | (Inr u, w2) \<Rightarrow> (Inr (json_access_token nt), w2)))"

definition get_valid_access_token ::
    "token_manager \<Rightarrow> world \<Rightarrow> (py_exception + string) \<times> world" where
  "get_valid_access_token self w =
     (case get_tokens self w of
        Inl exn \<Rightarrow> (Inl exn, w)
      | Inr None \<Rightarrow>
          (let initial_refresh_token = environ w ''BLUEBEAM_REFRESH_TOKEN''
           in if \<not> py_truthy initial_refresh_token
              then (Inl (Exception
                ''No tokens in database and no BLUEBEAM_REFRESH_TOKEN in environment''), w)
              else refresh_and_save self (the initial_refresh_token) w)
      | Inr (Some tk) \<Rightarrow>
          (case time_time w of (now, w1) \<Rightarrow>
             if rat_of_int (expires_at tk) > now + 300
             then (Inr (access_token tk), w1)
             else refresh_and_save self (refresh_token tk) w1))"

subsection \<open>Runs of the class, and the single slot\<close>





subsection \<open>The wording of the specification, for comparison\<close>

text \<open>
  The message the specification gives for the failure of the bootstrap path; the message
  of the class is the one in \<open>get_valid_access_token\<close> above.
\<close>

definition spec_bootstrap_failure_message :: string where
  "spec_bootstrap_failure_message =
     ''no cached credential and no bootstrap refresh token available''"

subsection \<open>Example worlds\<close>

definition example_environ :: "string \<Rightarrow> string option" where
  "example_environ k =
     (if k = ''BLUEBEAM_CLIENT_ID'' then Some ''id''
      else if k = ''BLUEBEAM_CLIENT_SECRET'' then Some ''secret''
      else if k = ''BLUEBEAM_REFRESH_TOKEN'' then Some ''rt0''
      else None)"


text \<open>An endpoint that grants every request, and one that refuses every request.\<close>

definition granting_endpoint :: "http_request \<Rightarrow> http_outcome" where
  "granting_endpoint req =
     Response \<lparr>status_code = 200, response_text = ''ok'',
               json = \<lparr>json_access_token = ''at1'', json_refresh_token = ''rt1'',
                       json_expires_in = 3600\<rparr>\<rparr>"

definition refusing_endpoint :: "http_request \<Rightarrow> http_outcome" where
  "refusing_endpoint req =
     Response \<lparr>status_code = 401, response_text = ''invalid_grant'',
               json = \<lparr>json_access_token = [], json_refresh_token = [],
                       json_expires_in = 0\<rparr>\<rparr>"

text \<open>
  A world whose only database file is \<open>tokens.db\<close> and whose clock reads 1000.5, 1002.5,
  1004.5, ... seconds.
\<close>

definition example_world ::
    "database \<Rightarrow> (string \<Rightarrow> string option) \<Rightarrow> (http_request \<Rightarrow> http_outcome) \<Rightarrow> world" where
  "example_world db env ep =
     \<lparr>files = (\<lambda>p. if p = ''tokens.db'' then db else None),
      commits = 0,
      environ = env,
      clock = (\<lambda>n. 2001 / 2 + 2 * rat_of_nat n),
      clock_reads = 0,
      endpoint = ep,
      posted = []\<rparr>"

definition example_manager :: token_manager where
  "example_manager = \<lparr>db_path = ''tokens.db'', client_id = Some ''id'', client_secret = Some ''secret''\<rparr>"

text \<open>A stored row that is good until second 5000, and one that runs out at second 1100.\<close>

definition fresh_row :: token_row where
  "fresh_row = Row 1 ''rt0'' ''at0'' 5000"

definition stale_row :: token_row where
  "stale_row = Row 1 ''rt0'' ''at0'' 1100"

text \<open>
  The worlds of the examples: a token good for a long time, a token about to run out, an
  empty table with and without the bootstrap refresh token, an endpoint that refuses, and
  a first start with no client credentials in the environment.
\<close>

definition fresh_world :: world where
  "fresh_world = example_world (Some [fresh_row]) example_environ granting_endpoint"

definition stale_world :: world where
  "stale_world = example_world (Some [stale_row]) example_environ granting_endpoint"


definition unconfigured_world :: world where
  "unconfigured_world = example_world (Some []) (\<lambda>k. None) granting_endpoint"

definition refused_world :: world where
  "refused_world = example_world (Some [stale_row]) example_environ refusing_endpoint"



section \<open>Properties\<close>

subsection \<open>The store and the refresh call\<close>

lemma get_tokens_cases:
  "get_tokens self w =
     (case files w (db_path self) of
        None \<Rightarrow> Inl (OperationalError ''no such table: tokens'')
      | Some [] \<Rightarrow> Inr None
      | Some (Row i r a e # rest) \<Rightarrow>
          Inr (Some \<lparr>access_token = a, refresh_token = r, expires_at = e\<rparr>))"
  by (simp add: get_tokens_def select_fetchone_def sqlite3_connect_def
      split: option.splits list.splits token_row.splits)



lemma save_tokens_table:
  assumes "files w (db_path self) = Some rows"
  shows "save_tokens self a r e w =
     (Inr (), conn_commit (db_path self)
                (Some [Row 1 r a (py_int (clock w (clock_reads w)) + e)])
                (w\<lparr>clock_reads := Suc (clock_reads w)\<rparr>))"
  using assms
  by (simp add: save_tokens_def time_time_def sqlite3_connect_def delete_from_tokens_def
      insert_into_tokens_def next_rowid_def)

lemma save_tokens_no_table:
  assumes "files w (db_path self) = None"
  shows "save_tokens self a r e w =
     (Inl (OperationalError ''no such table: tokens''), w\<lparr>clock_reads := Suc (clock_reads w)\<rparr>)"
  using assms
  by (simp add: save_tokens_def time_time_def sqlite3_connect_def delete_from_tokens_def)

lemma refresh_access_token_posted:
  "posted (snd (refresh_access_token self rt w)) = posted w @ [refresh_request self rt]"
  by (simp add: refresh_access_token_def Let_def split: http_outcome.splits)

lemma refresh_access_token_rest:
  "files (snd (refresh_access_token self rt w)) = files w"
  "commits (snd (refresh_access_token self rt w)) = commits w"
  "clock (snd (refresh_access_token self rt w)) = clock w"
  "clock_reads (snd (refresh_access_token self rt w)) = clock_reads w"
  "environ (snd (refresh_access_token self rt w)) = environ w"
  "endpoint (snd (refresh_access_token self rt w)) = endpoint w"
  by (simp_all add: refresh_access_token_def Let_def split: http_outcome.splits)


lemma refresh_access_token_result:
  "fst (refresh_access_token self rt w) =
     (case endpoint w (refresh_request self rt) of
        ConnectionFailed msg \<Rightarrow> Inl (RequestException msg)
      | Response response \<Rightarrow>
          if status_code response = 200 then Inr (json response)
          else Inl (Exception (''Failed to refresh token: '' @ response_text response)))"
  by (simp add: refresh_access_token_def Let_def split: http_outcome.splits)

lemma refresh_and_save_posted:
  "posted (snd (refresh_and_save self rt w)) = posted w @ [refresh_request self rt]"
proof (cases "files w (db_path self)")
  case None
  then show ?thesis
    by (simp add: refresh_and_save_def refresh_access_token_def Let_def save_tokens_no_table
        split: http_outcome.splits)
next
  case (Some rows)
  then show ?thesis
    by (simp add: refresh_and_save_def refresh_access_token_def Let_def save_tokens_table
        conn_commit_def split: http_outcome.splits)
qed


lemma refresh_and_save_refused:
  assumes "endpoint w (refresh_request self rt) = Response resp"
      and "status_code resp \<noteq> 200"
  shows "refresh_and_save self rt w =
     (Inl (Exception (''Failed to refresh token: '' @ response_text resp)),
      w\<lparr>posted := posted w @ [refresh_request self rt]\<rparr>)"
  using assms
  by (simp add: refresh_and_save_def refresh_access_token_def Let_def)

text \<open>
  The four ways a call of \<open>get_valid_access_token\<close> can go: the table is missing, the
  table is empty and there is no bootstrap token, the stored token is returned, or a
  refresh is made and saved.
\<close>

lemma get_valid_access_token_paths:
  "get_valid_access_token self w = (Inl (OperationalError ''no such table: tokens''), w)
   \<or> get_valid_access_token self w =
        (Inl (Exception
           ''No tokens in database and no BLUEBEAM_REFRESH_TOKEN in environment''), w)
   \<or> (\<exists>tk. get_tokens self w = Inr (Some tk)
         \<and> get_valid_access_token self w =
             (Inr (access_token tk), w\<lparr>clock_reads := Suc (clock_reads w)\<rparr>))
   \<or> (\<exists>rt w1 rows. files w1 = files w \<and> commits w1 = commits w \<and> posted w1 = posted w
         \<and> endpoint w1 = endpoint w \<and> files w (db_path self) = Some rows
         \<and> get_valid_access_token self w = refresh_and_save self rt w1)"
proof (cases "files w (db_path self)")
  case None
  then show ?thesis
    by (simp add: get_valid_access_token_def get_tokens_cases)
next
  case (Some rows)
  show ?thesis
  proof (cases rows)
    case Nil
    with Some have g: "get_tokens self w = Inr None"
      by (simp add: get_tokens_cases)
    show ?thesis
    proof (cases "py_truthy (environ w ''BLUEBEAM_REFRESH_TOKEN'')")
      case True
      with g have "get_valid_access_token self w =
          refresh_and_save self (the (environ w ''BLUEBEAM_REFRESH_TOKEN'')) w"
        by (simp add: get_valid_access_token_def)
      with Some show ?thesis by blast
    next
      case False
      with g show ?thesis by (simp add: get_valid_access_token_def)
    qed
  next
    case (Cons row rest)
    obtain i r a e where row: "row = Row i r a e" by (cases row)
    let ?tk = "\<lparr>access_token = a, refresh_token = r, expires_at = e\<rparr>"
    let ?w1 = "w\<lparr>clock_reads := Suc (clock_reads w)\<rparr>"
    have g: "get_tokens self w = Inr (Some ?tk)"
      using Some Cons row by (simp add: get_tokens_cases)
    show ?thesis
    proof (cases "rat_of_int e > clock w (clock_reads w) + 300")
      case True
      with g have "get_valid_access_token self w = (Inr (access_token ?tk), ?w1)"
        by (simp add: get_valid_access_token_def time_time_def)
      with g show ?thesis by blast
    next
      case False
      with g have "get_valid_access_token self w = refresh_and_save self r ?w1"
        by (simp add: get_valid_access_token_def time_time_def)
      moreover have "files ?w1 = files w" "commits ?w1 = commits w" "posted ?w1 = posted w"
        "endpoint ?w1 = endpoint w" by simp_all
      ultimately show ?thesis using Some by blast
    qed
  qed
qed

subsection \<open>The cached path\<close>



subsection \<open>The refresh path\<close>



subsection \<open>The bootstrap path\<close>



text \<open>
  C4, as the class has it. When the table holds no row and no bootstrap refresh token is
  configured (\<open>BLUEBEAM_REFRESH_TOKEN\<close> unset or empty), \<open>get_valid_access_token\<close>
  raises \<open>Exception\<close> with the message
  \<open>No tokens in database and no BLUEBEAM_REFRESH_TOKEN in environment\<close>, and the world
  is untouched: no request is posted.
\<close>

theorem C4_no_bootstrap_material:
  assumes "get_tokens self w = Inr None"
      and "\<not> py_truthy (environ w ''BLUEBEAM_REFRESH_TOKEN'')"
  shows "get_valid_access_token self w =
           (Inl (Exception
              ''No tokens in database and no BLUEBEAM_REFRESH_TOKEN in environment''), w)"
  using assms by (simp add: get_valid_access_token_def)

theorem C4_witness:
  "get_tokens example_manager unconfigured_world = Inr None
   \<and> \<not> py_truthy (environ unconfigured_world ''BLUEBEAM_REFRESH_TOKEN'')
   \<and> fst (get_valid_access_token example_manager unconfigured_world) =
       Inl (Exception ''No tokens in database and no BLUEBEAM_REFRESH_TOKEN in environment'')
   \<and> posted (snd (get_valid_access_token example_manager unconfigured_world)) = []"
proof -
  have h1: "get_tokens example_manager unconfigured_world = Inr None"
    by (simp add: get_tokens_cases unconfigured_world_def example_world_def
        example_manager_def)
  have h2: "\<not> py_truthy (environ unconfigured_world ''BLUEBEAM_REFRESH_TOKEN'')"
    by (simp add: unconfigured_world_def example_world_def py_truthy_def)
  have w: "posted unconfigured_world = []"
    by (simp add: unconfigured_world_def example_world_def)
  show ?thesis
    using C4_no_bootstrap_material [OF h1 h2] h1 h2 w by simp
qed

text \<open>
  C4 as the specification words it names the message
  \<open>no cached credential and no bootstrap refresh token available\<close>. With an empty table
  and an empty environment the exception that is raised carries another message.
\<close>

theorem C4_counterexample:
  "fst (get_valid_access_token example_manager unconfigured_world) =
     Inl (Exception ''No tokens in database and no BLUEBEAM_REFRESH_TOKEN in environment'')
   \<and> fst (get_valid_access_token example_manager unconfigured_world) \<noteq>
     Inl (Exception spec_bootstrap_failure_message)"
  by (simp add: get_valid_access_token_def get_tokens_cases unconfigured_world_def
      example_world_def example_manager_def py_truthy_def spec_bootstrap_failure_message_def)

subsection \<open>A refused refresh\<close>

text \<open>
  C5. Whenever the request that \<open>get_valid_access_token\<close> posted is answered with a
  status other than 200, the method raises the exception of \<open>refresh_access_token\<close>,
  whose message is \<open>Failed to refresh token: \<close> followed by the raw body of the answer,
  and the token store is as it was before the call: the files are unchanged and no commit
  has been made.
\<close>

theorem C5_refused_refresh:
  assumes "posted (snd (get_valid_access_token self w)) = posted w @ [req]"
      and "endpoint w req = Response resp"
      and "status_code resp \<noteq> 200"
  shows "fst (get_valid_access_token self w) =
           Inl (Exception (''Failed to refresh token: '' @ response_text resp))
       \<and> files (snd (get_valid_access_token self w)) = files w
       \<and> commits (snd (get_valid_access_token self w)) = commits w"
proof -
  note paths = get_valid_access_token_paths [of self w]
  from paths show ?thesis
  proof (elim disjE exE conjE)
    assume "get_valid_access_token self w =
      (Inl (OperationalError ''no such table: tokens''), w)"
    with assms(1) show ?thesis by simp
  next
    assume "get_valid_access_token self w =
        (Inl (Exception
           ''No tokens in database and no BLUEBEAM_REFRESH_TOKEN in environment''), w)"
    with assms(1) show ?thesis by simp
  next
    fix tk
    assume "get_valid_access_token self w =
             (Inr (access_token tk), w\<lparr>clock_reads := Suc (clock_reads w)\<rparr>)"
    with assms(1) show ?thesis by simp
  next
    fix rt w1 rows
    assume d: "files w1 = files w" "commits w1 = commits w" "posted w1 = posted w"
         "endpoint w1 = endpoint w"
         "get_valid_access_token self w = refresh_and_save self rt w1"
    have "req = refresh_request self rt"
      using assms(1) d(3) by (simp add: d(5) refresh_and_save_posted)
    then have "endpoint w1 (refresh_request self rt) = Response resp"
      using assms(2) d(4) by simp
    then have "refresh_and_save self rt w1 =
      (Inl (Exception (''Failed to refresh token: '' @ response_text resp)),
       w1\<lparr>posted := posted w1 @ [refresh_request self rt]\<rparr>)"
      using assms(3) by (rule refresh_and_save_refused)
    then show ?thesis
      using d by simp
  qed
qed

text \<open>The theorem at a token about to run out and an endpoint that answers 401.\<close>

theorem C5_witness:
  "posted (snd (get_valid_access_token example_manager refused_world)) =
     posted refused_world @ [refresh_request example_manager ''rt0'']
   \<and> endpoint refused_world (refresh_request example_manager ''rt0'') =
       Response \<lparr>status_code = 401, response_text = ''invalid_grant'',
                 json = \<lparr>json_access_token = [], json_refresh_token = [],
                         json_expires_in = 0\<rparr>\<rparr>
   \<and> fst (get_valid_access_token example_manager refused_world) =
       Inl (Exception ''Failed to refresh token: invalid_grant'')
   \<and> files (snd (get_valid_access_token example_manager refused_world)) ''tokens.db'' =
       Some [Row 1 ''rt0'' ''at0'' 1100]
   \<and> commits (snd (get_valid_access_token example_manager refused_world)) = 0"
proof -
  let ?resp = "\<lparr>status_code = 401, response_text = ''invalid_grant'',
                 json = \<lparr>json_access_token = [], json_refresh_token = [],
                         json_expires_in = 0\<rparr>\<rparr>"
  have g: "get_tokens example_manager refused_world =
      Inr (Some \<lparr>access_token = ''at0'', refresh_token = ''rt0'', expires_at = 1100\<rparr>)"
    by (simp add: get_tokens_cases refused_world_def example_world_def example_manager_def
        stale_row_def)
  have late: "\<not> rat_of_int 1100 > clock refused_world (clock_reads refused_world) + 300"
    by (simp add: refused_world_def example_world_def)
  have h1: "posted (snd (get_valid_access_token example_manager refused_world)) =
     posted refused_world @ [refresh_request example_manager ''rt0'']"
    using g late
    by (simp add: get_valid_access_token_def time_time_def refresh_and_save_posted)
  have h2: "endpoint refused_world (refresh_request example_manager ''rt0'') = Response ?resp"
    by (simp add: refused_world_def example_world_def refusing_endpoint_def)
  have h3: "status_code ?resp \<noteq> 200" by simp
  have w: "files refused_world ''tokens.db'' = Some [Row 1 ''rt0'' ''at0'' 1100]"
    "commits refused_world = 0"
    by (simp_all add: refused_world_def example_world_def stale_row_def)
  show ?thesis
    using C5_refused_refresh [OF h1 h2 h3] h1 h2 w by simp
qed

subsection \<open>The token store\<close>


lemma refresh_and_save_Inr_D:
  assumes "fst (refresh_and_save self rt w) = Inr tok"
  shows "\<exists>tk. get_tokens self (snd (refresh_and_save self rt w)) = Inr (Some tk)
              \<and> access_token tk = tok"
proof (cases "files w (db_path self)")
  case None
  with assms show ?thesis
    by (simp add: refresh_and_save_def refresh_access_token_def Let_def save_tokens_no_table
        split: http_outcome.splits if_splits)
next
  case (Some rows)
  with assms show ?thesis
    by (auto simp: refresh_and_save_def refresh_access_token_def Let_def save_tokens_table
        conn_commit_def get_tokens_cases split: http_outcome.splits if_splits)
qed

lemma init_db_files:
  "files (init_db self w) =
     (files w)(db_path self := (case files w (db_path self) of None \<Rightarrow> Some []
                                | Some rows \<Rightarrow> Some rows))"
  by (simp add: init_db_def sqlite3_connect_def create_table_if_not_exists_def conn_commit_def)



subsection \<open>The single slot\<close>









text \<open>
  C9. Initialising the store is idempotent: a second run changes nothing, and a run on a
  file that already has the table leaves every file, and so the stored record, as it
  was.
\<close>

theorem C9_init_db_idempotent:
  "files (init_db self (init_db self w)) = files (init_db self w)
   \<and> (files w (db_path self) \<noteq> None \<longrightarrow>
        files (init_db self w) = files w
        \<and> get_tokens self (init_db self w) = get_tokens self w)"
  by (auto simp: init_db_files get_tokens_cases fun_upd_idem_iff split: option.splits)

text \<open>The theorem on a table that holds one row.\<close>

theorem C9_witness:
  "files fresh_world (db_path example_manager) \<noteq> None
   \<and> files (init_db example_manager fresh_world) ''tokens.db'' = Some [fresh_row]
   \<and> get_tokens example_manager (init_db example_manager fresh_world) =
       Inr (Some \<lparr>access_token = ''at0'', refresh_token = ''rt0'', expires_at = 5000\<rparr>)"
proof -
  have h: "files fresh_world (db_path example_manager) \<noteq> None"
    by (simp add: fresh_world_def example_world_def example_manager_def)
  have f: "files fresh_world ''tokens.db'' = Some [fresh_row]"
    by (simp add: fresh_world_def example_world_def)
  have g: "get_tokens example_manager fresh_world =
       Inr (Some \<lparr>access_token = ''at0'', refresh_token = ''rt0'', expires_at = 5000\<rparr>)"
    by (simp add: get_tokens_cases fresh_world_def example_world_def example_manager_def
        fresh_row_def)
  show ?thesis
    using C9_init_db_idempotent [of example_manager fresh_world] h f g by simp
qed

subsection \<open>The result and the store\<close>

text \<open>
  C10. After every call of \<open>get_valid_access_token\<close> that returns, on whichever path,
  the access token returned is the \<open>access_token\<close> of the record the token store then
  holds.
\<close>

theorem C10_result_is_stored_token:
  assumes "fst (get_valid_access_token self w) = Inr tok"
  shows "\<exists>tk. get_tokens self (snd (get_valid_access_token self w)) = Inr (Some tk)
              \<and> access_token tk = tok"
proof -
  note paths = get_valid_access_token_paths [of self w]
  from paths show ?thesis
  proof (elim disjE exE conjE)
    fix tk
    assume c: "get_tokens self w = Inr (Some tk)"
      "get_valid_access_token self w =
         (Inr (access_token tk), w\<lparr>clock_reads := Suc (clock_reads w)\<rparr>)"
    have "get_tokens self (w\<lparr>clock_reads := Suc (clock_reads w)\<rparr>) = get_tokens self w"
      by (simp add: get_tokens_cases)
    with c assms show ?thesis by simp
  next
    fix rt w1 rows
    assume d: "get_valid_access_token self w = refresh_and_save self rt w1"
    with assms have "fst (refresh_and_save self rt w1) = Inr tok" by simp
    from refresh_and_save_Inr_D [OF this] show ?thesis by (simp add: d)
  qed (use assms in simp_all)
qed

text \<open>The theorem on the refresh path, at a token about to run out.\<close>

theorem C10_witness:
  "fst (get_valid_access_token example_manager stale_world) = Inr ''at1''
   \<and> (\<exists>tk. get_tokens example_manager
               (snd (get_valid_access_token example_manager stale_world)) = Inr (Some tk)
           \<and> access_token tk = ''at1'')"
proof -
  have g: "get_tokens example_manager stale_world =
      Inr (Some \<lparr>access_token = ''at0'', refresh_token = ''rt0'', expires_at = 1100\<rparr>)"
    by (simp add: get_tokens_cases stale_world_def example_world_def example_manager_def
        stale_row_def)
  have late: "\<not> rat_of_int 1100 > clock stale_world (clock_reads stale_world) + 300"
    by (simp add: stale_world_def example_world_def)
  have step: "get_valid_access_token example_manager stale_world =
      refresh_and_save example_manager ''rt0''
        (stale_world\<lparr>clock_reads := Suc (clock_reads stale_world)\<rparr>)"
    using g late by (simp add: get_valid_access_token_def time_time_def)
  have h: "fst (get_valid_access_token example_manager stale_world) = Inr ''at1''"
    unfolding step
    by (simp add: refresh_and_save_def refresh_access_token_def Let_def save_tokens_table
        stale_world_def example_world_def example_manager_def granting_endpoint_def)
  show ?thesis
    using C10_result_is_stored_token [OF h] h by simp
qed

subsection \<open>Missing client credentials\<close>




end
